theory Spec2Isabelle
  imports Complex_Main
begin

section \<open>Python values and exceptions\<close>

text \<open>
  The viewer of \<^verbatim>\<open>trimesh/viewer/windowed.py\<close> stores a few dynamically typed
  values: the axis mode is one of \<^verbatim>\<open>False\<close>, \<^verbatim>\<open>'world'\<close>, \<^verbatim>\<open>'all'\<close>, and the
  \<^verbatim>\<open>visible\<close> and \<^verbatim>\<open>smooth\<close> arguments may be \<^verbatim>\<open>None\<close>, a boolean or anything
  else with a truth value.
\<close>

datatype pyval = PyNone | PyBool bool | PyStr string

text \<open>\<^verbatim>\<open>bool(x)\<close>, also the test of \<^verbatim>\<open>if x:\<close>.\<close>

fun truthy :: "pyval \<Rightarrow> bool" where
  "truthy PyNone = False"
| "truthy (PyBool b) = b"
| "truthy (PyStr s) = (s \<noteq> [])"

text \<open>Every raise of the source is a value of this type.\<close>

datatype error =
    KeyError
  | ValueError
  | AttributeError
  | UnboundLocalError
  | LinAlgError
  | ConversionError

text \<open>\<^verbatim>\<open>str(n)\<close> for an integer: its decimal digits, with a sign when negative.\<close>

definition digit_char :: "nat \<Rightarrow> char" where
  "digit_char d = char_of (48 + d)"

function str_nat :: "nat \<Rightarrow> string" where
  "str_nat n = (if n < 10 then [digit_char n] else str_nat (n div 10) @ [digit_char (n mod 10)])"
  by pat_completeness auto
termination
  by (relation "measure id") auto

definition str_int :: "int \<Rightarrow> string" where
  "str_int i = (if i < 0 then CHR ''-'' # str_nat (nat (- i)) else str_nat (nat i))"

text \<open>\<^verbatim>\<open>list.index\<close>: the first position of an element, \<open>None\<close> where Python raises
  \<^verbatim>\<open>ValueError\<close>.\<close>

fun index_of :: "'a list \<Rightarrow> 'a \<Rightarrow> nat option" where
  "index_of [] y = None"
| "index_of (x # xs) y = (if x = y then Some 0 else map_option Suc (index_of xs y))"

section \<open>Numeric arrays\<close>

text \<open>
  A one-dimensional array is a list of reals, a two-dimensional one a list of rows.
  The arithmetic is exact: rounding is not modelled.
\<close>

type_synonym vec = "real list"
type_synonym mat = "real list list"

definition zeros :: "nat \<Rightarrow> vec" where
  "zeros n = replicate n 0"

definition vadd :: "vec \<Rightarrow> vec \<Rightarrow> vec" where
  "vadd u w = map (\<lambda>(a, b). a + b) (zip u w)"

definition vsub :: "vec \<Rightarrow> vec \<Rightarrow> vec" where
  "vsub u w = map (\<lambda>(a, b). a - b) (zip u w)"

definition smul :: "vec \<Rightarrow> real \<Rightarrow> vec" where
  "smul u k = map (\<lambda>a. a * k) u"

definition inner :: "vec \<Rightarrow> vec \<Rightarrow> real" where
  "inner u w = sum_list (map (\<lambda>(a, b). a * b) (zip u w))"

definition mat_vec :: "mat \<Rightarrow> vec \<Rightarrow> vec" where
  "mat_vec A u = map (\<lambda>row. inner row u) A"

definition column :: "mat \<Rightarrow> nat \<Rightarrow> vec" where
  "column B j = map (\<lambda>row. row ! j) B"

text \<open>\<^verbatim>\<open>np.dot(A, B)\<close> on two matrices.\<close>

definition np_dot :: "mat \<Rightarrow> mat \<Rightarrow> mat" where
  "np_dot A B = map (\<lambda>row. map (\<lambda>j. inner row (column B j)) [0..<length (hd B)]) A"

definition is_4x4 :: "mat \<Rightarrow> bool" where
  "is_4x4 A = (length A = 4 \<and> list_all (\<lambda>row. length row = 4) A)"

definition identity4 :: mat where
  "identity4 = [[1, 0, 0, 0], [0, 1, 0, 0], [0, 0, 1, 0], [0, 0, 0, 1]]"

definition translation_matrix :: "real \<Rightarrow> real \<Rightarrow> real \<Rightarrow> mat" where
  "translation_matrix x y z = [[1, 0, 0, x], [0, 1, 0, y], [0, 0, 1, z], [0, 0, 0, 1]]"

text \<open>The slices of \<^verbatim>\<open>view_to_transform\<close>: \<^verbatim>\<open>T[:3, 3]\<close> read and written, and
  \<^verbatim>\<open>T[:3, :3]\<close>.\<close>

definition get_translation :: "mat \<Rightarrow> vec" where
  "get_translation T = [T ! 0 ! 3, T ! 1 ! 3, T ! 2 ! 3]"

definition set_translation :: "mat \<Rightarrow> vec \<Rightarrow> mat" where
  "set_translation T u =
     map (\<lambda>i. if i < 3 then (T ! i)[3 := u ! i] else T ! i) [0..<length T]"

definition rotation_block :: "mat \<Rightarrow> mat" where
  "rotation_block T = map (take 3) (take 3 T)"

text \<open>
  \<^verbatim>\<open>np.linalg.inv\<close>, by cofactors: the determinant is expanded along the first row,
  the inverse is the adjugate over the determinant, and a matrix that is not square or
  has determinant zero raises \<^verbatim>\<open>LinAlgError\<close>.
\<close>

definition delete_at :: "nat \<Rightarrow> 'a list \<Rightarrow> 'a list" where
  "delete_at i xs = take i xs @ drop (Suc i) xs"

definition minor :: "mat \<Rightarrow> nat \<Rightarrow> nat \<Rightarrow> mat" where
  "minor A i j = map (delete_at j) (delete_at i A)"

fun det_size :: "nat \<Rightarrow> mat \<Rightarrow> real" where
  "det_size 0 A = 1"
| "det_size (Suc n) A =
     sum_list (map (\<lambda>j. (- 1) ^ j * (A ! 0 ! j) * det_size n (minor A 0 j)) [0..<Suc n])"

definition det :: "mat \<Rightarrow> real" where
  "det A = det_size (length A) A"

definition linalg_inv :: "mat \<Rightarrow> error + mat" where
  "linalg_inv A =
     (if \<not> list_all (\<lambda>row. length row = length A) A then Inl LinAlgError
      else if det A = 0 then Inl LinAlgError
      else Inr (map (\<lambda>i. map (\<lambda>j. (- 1) ^ (i + j) * det (minor A j i) / det A)
                               [0..<length A])
                    [0..<length A]))"

section \<open>The scene\<close>

text \<open>
  A geometry is described by what the viewer probes with \<^verbatim>\<open>hasattr\<close>: an attribute
  that is missing is \<open>None\<close>. \<open>md5\<close> is the string \<^verbatim>\<open>geometry.md5()\<close> returns,
  \<open>tostring\<close> the bytes of \<^verbatim>\<open>geometry.tostring()\<close>, \<open>crc\<close> the number
  \<^verbatim>\<open>geometry.visual.crc()\<close> returns, \<open>faces\<close> the number of faces.
\<close>

type_synonym material = nat
type_synonym texture = nat

record visual =
  crc :: int
  material :: "material option"
  transparency :: "bool option"

record geometry =
  md5 :: "string option"
  tostring :: "string option"
  visual :: "visual option"
  faces :: nat

section \<open>The geometry fingerprint\<close>

text \<open>
  \<^verbatim>\<open>geometry_hash\<close>. The local variable \<^verbatim>\<open>md5\<close> is bound by the first branch that
  applies and stays unbound when neither does; \<^verbatim>\<open>md5 += ...\<close> and \<^verbatim>\<open>return md5\<close>
  both read it first, which raises \<^verbatim>\<open>UnboundLocalError\<close> on an unbound name. The
  builtin \<^verbatim>\<open>hash\<close> is a parameter.
\<close>

definition geometry_hash :: "(string \<Rightarrow> int) \<Rightarrow> geometry \<Rightarrow> error + string" where
  "geometry_hash builtin_hash g =
     (let local_md5 =
            (case md5 g of
               Some d \<Rightarrow> Some d
             | None \<Rightarrow>
                 (case tostring g of
                    Some bytes \<Rightarrow> Some (str_int (builtin_hash bytes))
                  | None \<Rightarrow> None))
      in case visual g of
           Some vis \<Rightarrow>
             (case local_md5 of
                None \<Rightarrow> Inl UnboundLocalError
              | Some d \<Rightarrow> Inr (d @ str_int (crc vis)))
         | None \<Rightarrow>
             (case local_md5 of
                None \<Rightarrow> Inl UnboundLocalError
              | Some d \<Rightarrow> Inr d))"

section \<open>The view state\<close>

text \<open>
  Modelled from the spec: the class \<^verbatim>\<open>Arcball\<close> of \<^verbatim>\<open>trimesh.transformations\<close> is
  imported by the viewer and its code is not among the files given. The spec describes
  the rotation widget as a state holding the current orientation and the window-space
  pivot and radius that map mouse coordinates to a rotation. \<open>orientation\<close> is the 4x4
  matrix \<^verbatim>\<open>ball.matrix()\<close> returns; \<^verbatim>\<open>ball.place(center, radius)\<close> stores the pivot
  and the radius. A freshly built \<^verbatim>\<open>Arcball()\<close> is a parameter of the functions that
  build one.
\<close>

record arcball =
  orientation :: mat
  pivot :: "real \<times> real"
  radius :: real

definition place :: "arcball \<Rightarrow> real \<times> real \<Rightarrow> real \<Rightarrow> arcball" where
  "place b c r = b\<lparr>pivot := c, radius := r\<rparr>"

text \<open>The dictionary \<^verbatim>\<open>self.view\<close>, one field per key (\<open>view_scale\<close> is the key
  \<^verbatim>\<open>'scale'\<close>).\<close>

record view_state =
  cull :: bool
  axis :: pyval
  fullscreen :: bool
  wireframe :: bool
  translation :: vec
  center :: vec
  view_scale :: real
  ball :: arcball

text \<open>An entry of the \<^verbatim>\<open>flags\<close> dictionary: a key of the view with its new value, or
  a key the view does not have.\<close>

datatype flag =
    Cull bool
  | Axis pyval
  | Fullscreen bool
  | Wireframe bool
  | Translation vec
  | Center vec
  | Scale real
  | Ball arcball
  | Unknown string

text \<open>\<^verbatim>\<open>if k in self.view: self.view[k] = v\<close>.\<close>

fun apply_flag :: "view_state \<Rightarrow> flag \<Rightarrow> view_state" where
  "apply_flag w (Cull b) = w\<lparr>cull := b\<rparr>"
| "apply_flag w (Axis a) = w\<lparr>axis := a\<rparr>"
| "apply_flag w (Fullscreen b) = w\<lparr>fullscreen := b\<rparr>"
| "apply_flag w (Wireframe b) = w\<lparr>wireframe := b\<rparr>"
| "apply_flag w (Translation t) = w\<lparr>translation := t\<rparr>"
| "apply_flag w (Center c) = w\<lparr>center := c\<rparr>"
| "apply_flag w (Scale s) = w\<lparr>view_scale := s\<rparr>"
| "apply_flag w (Ball b) = w\<lparr>ball := b\<rparr>"
| "apply_flag w (Unknown k) = w"

text \<open>\<^verbatim>\<open>view_to_transform\<close>, statement by statement.\<close>

definition view_to_transform :: "view_state \<Rightarrow> mat" where
  "view_to_transform w =
     (let transform = orientation (ball w);
          transform = set_translation transform (center w);
          transform = set_translation transform
            (vsub (get_translation transform)
                  (mat_vec (rotation_block transform) (center w)));
          transform = set_translation transform
            (vadd (get_translation transform)
                  (smul (smul (translation w) (view_scale w)) 5.0))
      in transform)"

section \<open>The scene and the viewer\<close>

text \<open>
  The scene is the caller's. \<open>geometry\<close> is the ordered dictionary
  \<^verbatim>\<open>scene.geometry\<close>; \<open>graph\<close> maps a node name to its transform and geometry name, as
  \<^verbatim>\<open>scene.graph[node]\<close> does; \<open>nodes_geometry\<close> is \<^verbatim>\<open>scene.graph.nodes_geometry\<close>;
  \<open>camera_transform\<close> is the matrix of
  \<^verbatim>\<open>scene.graph.get(frame_to='world', frame_from=scene.camera.name)\<close>; \<open>bounds\<close> has
  two rows (the minimum and the maximum corner) of three coordinates.
\<close>

record scene =
  geometry :: "(string \<times> geometry) list"
  graph :: "string \<rightharpoonup> (mat \<times> string option)"
  nodes_geometry :: "string list"
  camera_transform :: mat
  camera_resolution :: "int \<times> int"
  bounds :: mat
  scale :: real
  centroid :: vec

text \<open>The arguments \<^verbatim>\<open>rendering.convert_to_vertexlist\<close> returns for
  \<^verbatim>\<open>batch.add_indexed\<close>; \<^verbatim>\<open>args[1]\<close> is the drawing mode.\<close>

record vargs =
  va_count :: nat
  va_mode :: nat
  va_indices :: "nat list"

datatype vlist = VList vargs

text \<open>The vertex list of the axis marker, built from \<^verbatim>\<open>creation.axis(origin_size=...)\<close>.\<close>

datatype axis_marker = AxisMarker real

type_synonym kwargs = "(string \<times> pyval) list"

text \<open>
  What the viewer uses of the modules it imports, as parameters:
  \<^verbatim>\<open>rendering.convert_to_vertexlist\<close>, \<^verbatim>\<open>rendering.material_to_texture\<close>, the
  builtin \<^verbatim>\<open>hash\<close>, a fresh \<^verbatim>\<open>Arcball()\<close> and \<^verbatim>\<open>platform.system()\<close>.
\<close>

record deps =
  convert_to_vertexlist :: "geometry \<Rightarrow> kwargs \<Rightarrow> error + vargs"
  material_to_texture :: "material \<Rightarrow> texture option"
  builtin_hash :: "string \<Rightarrow> int"
  new_arcball :: arcball
  platform_system :: string

text \<open>
  The viewer object. \<open>axis_list\<close> is \<^verbatim>\<open>self._axis\<close>. \<open>window_size\<close> is
  \<^verbatim>\<open>(self.width, self.height)\<close>, \<open>None\<close> until the window is created;
  \<open>window_visible\<close> is the \<^verbatim>\<open>visible\<close> argument the window was created with,
  \<open>window_fullscreen\<close> what \<^verbatim>\<open>set_fullscreen\<close> was last given. The \<open>gl_\<close> fields
  are the pipeline state the modelled calls set: the polygon mode (line or fill), face
  culling and the depth range. \<open>conversions\<close> records, in order, each call made to
  \<^verbatim>\<open>rendering.convert_to_vertexlist\<close>: the name being added and the keyword
  arguments passed.
\<close>

record viewer =
  scene :: scene
  callback :: "(scene \<Rightarrow> scene) option"
  view :: view_state
  axis_list :: "axis_marker option"
  vertex_list :: "string \<rightharpoonup> vlist"
  vertex_list_hash :: "string \<rightharpoonup> string"
  vertex_list_mode :: "string \<rightharpoonup> nat"
  fixed :: "string list option"
  textures :: "string \<rightharpoonup> texture"
  window_size :: "(int \<times> int) option"
  window_visible :: pyval
  window_fullscreen :: bool
  gl_polygon_line :: bool
  gl_cull_face :: bool
  gl_depth_range :: "real \<times> real"
  conversions :: "(string \<times> kwargs) list"

subsection \<open>Adding geometry\<close>

text \<open>
  \<^verbatim>\<open>SceneViewer.add_geometry\<close>. An exception of the conversion or of
  \<^verbatim>\<open>geometry_hash\<close> ends the call; the viewer object survives it, so the result then
  carries, with the exception, the viewer as the statements before the raise left it.
  When \<^verbatim>\<open>geometry_hash\<close> raises, \<^verbatim>\<open>self.vertex_list[name]\<close> has already been
  stored.
\<close>

definition add_geometry ::
  "deps \<Rightarrow> viewer \<Rightarrow> string \<Rightarrow> geometry \<Rightarrow> kwargs \<Rightarrow> (error \<times> viewer) + viewer" where
  "add_geometry d v name g kw =
     (case convert_to_vertexlist d g kw of
        Inl e \<Rightarrow> Inl (e, v)
      | Inr args \<Rightarrow>
          (let v = v\<lparr>conversions := conversions v @ [(name, kw)]\<rparr>;
               v = v\<lparr>vertex_list := (vertex_list v)(name \<mapsto> VList args)\<rparr>
           in case geometry_hash (builtin_hash d) g of
                Inl e \<Rightarrow> Inl (e, v)
              | Inr h \<Rightarrow>
                  (let v = v\<lparr>vertex_list_hash := (vertex_list_hash v)(name \<mapsto> h)\<rparr>;
                       v = v\<lparr>vertex_list_mode := (vertex_list_mode v)(name \<mapsto> va_mode args)\<rparr>
                   in case visual g of
                        None \<Rightarrow> Inr v
                      | Some vis \<Rightarrow>
                          (case material vis of
                             None \<Rightarrow> Inr v
                           | Some m \<Rightarrow>
                               (case material_to_texture d m of
                                  None \<Rightarrow> Inr v
                                | Some tex \<Rightarrow>
                                    Inr (v\<lparr>textures := (textures v)(name \<mapsto> tex)\<rparr>))))))"


text \<open>The loop \<^verbatim>\<open>for name, mesh in scene.geometry.items()\<close> of the constructor, which
  an exception of \<^verbatim>\<open>add_geometry\<close> leaves: the constructor then returns no viewer.\<close>

fun add_all :: "deps \<Rightarrow> viewer \<Rightarrow> (string \<times> geometry) list \<Rightarrow> kwargs \<Rightarrow> error + viewer" where
  "add_all d v [] kw = Inr v"
| "add_all d v ((name, mesh) # rest) kw =
     (case add_geometry d v name mesh kw of
        Inl failure \<Rightarrow> Inl (fst failure)
      | Inr v' \<Rightarrow> add_all d v' rest kw)"

subsection \<open>Flags\<close>

text \<open>\<^verbatim>\<open>SceneViewer.update_flags\<close>.\<close>

definition update_flags :: "viewer \<Rightarrow> viewer" where
  "update_flags v =
     (let v = v\<lparr>gl_polygon_line := wireframe (view v)\<rparr>;
          v = v\<lparr>window_fullscreen := fullscreen (view v)\<rparr>;
          v = v\<lparr>gl_cull_face := cull (view v)\<rparr>
      in if truthy (axis (view v)) \<and> axis_list v = None
         then v\<lparr>axis_list := Some (AxisMarker (scale (scene v) / 100))\<rparr>
         else if \<not> truthy (axis (view v)) \<and> axis_list v \<noteq> None
         then v\<lparr>axis_list := None\<rparr>
         else v)"

text \<open>\<^verbatim>\<open>SceneViewer.toggle_axis\<close>.\<close>

definition toggle_axis :: "viewer \<Rightarrow> error + viewer" where
  "toggle_axis v =
     (let states = [PyBool False, PyStr ''world'', PyStr ''all'']
      in case index_of states (axis (view v)) of
           None \<Rightarrow> Inl ValueError
         | Some i \<Rightarrow>
             (let index = (i + 1) mod length states;
                  v = v\<lparr>view := (view v)\<lparr>axis := states ! index\<rparr>\<rparr>
              in Inr (update_flags v)))"

subsection \<open>Resetting the view\<close>

text \<open>The dictionary \<^verbatim>\<open>reset_view\<close> assigns to \<^verbatim>\<open>self.view\<close> before its
  \<^verbatim>\<open>try\<close> block.\<close>

definition default_view :: "arcball \<Rightarrow> scene \<Rightarrow> view_state" where
  "default_view fresh sc =
     \<lparr>cull = True, axis = PyBool False, fullscreen = False, wireframe = False,
      translation = zeros 3, center = centroid sc, view_scale = scale sc, ball = fresh\<rparr>"

text \<open>
  The body of the \<^verbatim>\<open>try\<close> block. It fails where \<^verbatim>\<open>self.width\<close> cannot be read (the
  window does not exist yet); the result then carries the viewer as the statements
  before the failure left it.
\<close>

definition reset_view_try :: "viewer \<Rightarrow> flag list option \<Rightarrow> (error \<times> viewer) + viewer" where
  "reset_view_try v flags =
     (case window_size v of
        None \<Rightarrow> Inl (AttributeError, v)
      | Some (width, height) \<Rightarrow>
          (let v = v\<lparr>view := (view v)\<lparr>ball :=
                      place (ball (view v)) (real_of_int width / 2.0, real_of_int height / 2.0)
                            ((real_of_int width + real_of_int height) / 2.0)\<rparr>\<rparr>
           in case flags of
                None \<Rightarrow> Inr v
              | Some fs \<Rightarrow> Inr (update_flags (v\<lparr>view := foldl apply_flag (view v) fs\<rparr>))))"

text \<open>\<^verbatim>\<open>SceneViewer.reset_view\<close>: \<^verbatim>\<open>except BaseException: pass\<close> keeps the viewer
  as the failed block left it and returns normally.\<close>

definition reset_view :: "deps \<Rightarrow> viewer \<Rightarrow> flag list option \<Rightarrow> error + viewer" where
  "reset_view d v flags =
     (let v = v\<lparr>view := default_view (new_arcball d) (scene v)\<rparr>
      in case reset_view_try v flags of
           Inl (e, v') \<Rightarrow> Inr v'
         | Inr v' \<Rightarrow> Inr v')"

subsection \<open>Pipeline initialisation\<close>

text \<open>\<^verbatim>\<open>amax\<close> is the maximum of a row, \<^verbatim>\<open>np.clip(x, lo, np.inf)\<close> has no upper
  bound.\<close>

definition amax :: "vec \<Rightarrow> real" where
  "amax row = fold max (tl row) (hd row)"

definition clip_lower :: "real \<Rightarrow> real \<Rightarrow> real" where
  "clip_lower x lo = (if x < lo then lo else x)"

text \<open>
  The depth computed by \<^verbatim>\<open>init_gl\<close>:
  \<^verbatim>\<open>(np.abs(bounds).max(axis=1) ** 2).sum() ** .5\<close>, then clipped. The maximum along
  axis 1 is taken within each row of the bounds.
\<close>

definition max_depth :: "mat \<Rightarrow> real" where
  "max_depth b =
     clip_lower (sqrt (sum_list (map (\<lambda>x. x ^ 2) (map amax (map (map abs) b))))) 500.0"

text \<open>\<^verbatim>\<open>SceneViewer.init_gl\<close>, of which the depth range is kept: the other calls set
  constants of the pipeline that nothing here reads.\<close>

definition init_gl :: "viewer \<Rightarrow> viewer" where
  "init_gl v = v\<lparr>gl_depth_range := (0.0, max_depth (bounds (scene v))), gl_cull_face := True\<rparr>"

subsection \<open>Construction\<close>

text \<open>
  \<^verbatim>\<open>SceneViewer.__init__\<close>. The object starts without a window; \<^verbatim>\<open>reset_view\<close> runs
  first, the dictionaries are emptied, the window is created with \<^verbatim>\<open>visible\<close> and the
  resolution, every geometry of the scene is added with \<^verbatim>\<open>smooth=bool(smooth)\<close>, then
  \<^verbatim>\<open>init_gl\<close>, \<^verbatim>\<open>set_size\<close> and \<^verbatim>\<open>update_flags\<close> run. The event loop that
  \<^verbatim>\<open>start_loop\<close> starts is outside the model.
\<close>

definition SceneViewer_init ::
  "deps \<Rightarrow> scene \<Rightarrow> pyval \<Rightarrow> flag list option \<Rightarrow> pyval \<Rightarrow> (int \<times> int) option \<Rightarrow>
   (scene \<Rightarrow> scene) option \<Rightarrow> string list option \<Rightarrow> error + viewer" where
  "SceneViewer_init d sc smooth flags visible resolution cb fixed_names =
     (let v = \<lparr>scene = sc, callback = cb, view = default_view (new_arcball d) sc,
               axis_list = None, vertex_list = Map.empty, vertex_list_hash = Map.empty,
               vertex_list_mode = Map.empty, fixed = None, textures = Map.empty,
               window_size = None, window_visible = PyNone, window_fullscreen = False,
               gl_polygon_line = False, gl_cull_face = False, gl_depth_range = (0, 1),
               conversions = []\<rparr>
      in case reset_view d v flags of
           Inl e \<Rightarrow> Inl e
         | Inr v \<Rightarrow>
             (let v = v\<lparr>axis_list := None, vertex_list := Map.empty,
                       vertex_list_hash := Map.empty, vertex_list_mode := Map.empty,
                       fixed := fixed_names, textures := Map.empty\<rparr>;
                  res = (case resolution of None \<Rightarrow> camera_resolution sc | Some r \<Rightarrow> r);
                  v = v\<lparr>scene := (scene v)\<lparr>camera_resolution := res\<rparr>\<rparr>;
                  v = v\<lparr>window_visible := visible, window_size := Some res\<rparr>
              in case add_all d v (geometry (scene v)) [(''smooth'', PyBool (truthy smooth))] of
                   Inl e \<Rightarrow> Inl e
                 | Inr v \<Rightarrow>
                     (let v = init_gl v;
                          v = v\<lparr>window_size := Some res\<rparr>;
                          v = update_flags v
                      in Inr v)))"

subsection \<open>Drawing a frame\<close>

text \<open>The test \<^verbatim>\<open>hasattr(mesh, 'visual') and hasattr(mesh.visual, 'transparency') and
  mesh.visual.transparency\<close>.\<close>

definition is_transparent :: "geometry \<Rightarrow> bool" where
  "is_transparent mesh =
     (case visual mesh of
        None \<Rightarrow> False
      | Some vis \<Rightarrow> (case transparency vis of None \<Rightarrow> False | Some t \<Rightarrow> t))"

text \<open>
  What a frame sends to the graphics pipeline: a matrix multiplied onto the stack, the
  axis marker drawn (at the world frame, or at a node's frame with that node's matrix),
  the draw call \<^verbatim>\<open>self.vertex_list[geometry_name].draw(mode=mode)\<close> issued for a
  node, with the matrix pushed for it and the texture bound, if any, and the matrix
  pushed and popped again without a draw call for a node that is put back in the queue.
\<close>

datatype gl_event =
    MultMatrix mat
  | AxisDraw "mat option"
  | NodeDraw string string mat nat "texture option"
  | NodeDeferred string mat

text \<open>How one pass of the loop body ends: the node has no geometry, it was put back
  at the end of the queue, or it was drawn.\<close>

datatype outcome = Skipped | Requeued "gl_event list" | Drawn "gl_event list"

text \<open>The test \<^verbatim>\<open>self.fixed is not None and geometry_name in self.fixed\<close>.\<close>

definition is_fixed :: "viewer \<Rightarrow> string \<Rightarrow> bool" where
  "is_fixed v geometry_name =
     (case fixed v of None \<Rightarrow> False | Some names \<Rightarrow> geometry_name \<in> set names)"

text \<open>The transform of a node, replaced for a fixed geometry by
  \<^verbatim>\<open>np.dot(np.linalg.inv(view), transform)\<close>.\<close>

definition node_transform :: "viewer \<Rightarrow> mat \<Rightarrow> mat \<Rightarrow> string \<Rightarrow> error + mat" where
  "node_transform v view_matrix transform geometry_name =
     (if is_fixed v geometry_name
      then (case linalg_inv view_matrix of
              Inl e \<Rightarrow> Inl e
            | Inr inverse_view \<Rightarrow> Inr (np_dot inverse_view transform))
      else Inr transform)"

text \<open>The body of the \<^verbatim>\<open>while\<close> loop of \<^verbatim>\<open>on_draw\<close> for the node just popped;
  \<open>count\<close> is the counter after its increment.\<close>

definition process_node ::
  "viewer \<Rightarrow> mat \<Rightarrow> nat \<Rightarrow> int \<Rightarrow> string \<Rightarrow> error + outcome" where
  "process_node v view_matrix count_original count current_node =
     (case graph (scene v) current_node of
        None \<Rightarrow> Inl KeyError
      | Some (transform, None) \<Rightarrow> Inr Skipped
      | Some (transform, Some geometry_name) \<Rightarrow>
          (case node_transform v view_matrix transform geometry_name of
             Inl e \<Rightarrow> Inl e
           | Inr transform \<Rightarrow>
               (case map_of (geometry (scene v)) geometry_name of
                  None \<Rightarrow> Inl KeyError
                | Some mesh \<Rightarrow>
                    (case (if axis (view v) = PyStr ''all''
                           then (case axis_list v of
                                   None \<Rightarrow> Inl AttributeError
                                 | Some marker \<Rightarrow> Inr [AxisDraw (Some transform)])
                           else Inr []) of
                       Inl e \<Rightarrow> Inl e
                     | Inr axis_events \<Rightarrow>
                         if is_transparent mesh \<and> count < int count_original
                         then Inr (Requeued (axis_events @
                                [NodeDeferred current_node transform]))
                         else (case vertex_list_mode v geometry_name of
                                 None \<Rightarrow> Inl KeyError
                               | Some mode \<Rightarrow>
                                   (case vertex_list v geometry_name of
                                      None \<Rightarrow> Inl KeyError
                                    | Some vl \<Rightarrow>
                                        Inr (Drawn (axis_events @
                                          [NodeDraw current_node geometry_name transform mode
                                             (textures v geometry_name)]))))))))"

text \<open>The \<^verbatim>\<open>while\<close> loop over the queue \<^verbatim>\<open>node_names\<close>.\<close>

function draw_nodes ::
  "viewer \<Rightarrow> mat \<Rightarrow> nat \<Rightarrow> string list \<Rightarrow> int \<Rightarrow> error + gl_event list" where
  "draw_nodes v view_matrix count_original node_names count =
     (case node_names of
        [] \<Rightarrow> Inr []
      | current_node # rest \<Rightarrow>
          (case process_node v view_matrix count_original (count + 1) current_node of
             Inl e \<Rightarrow> Inl e
           | Inr Skipped \<Rightarrow> draw_nodes v view_matrix count_original rest (count + 1)
           | Inr (Requeued events) \<Rightarrow>
               map_sum id ((@) events)
                 (draw_nodes v view_matrix count_original (rest @ [current_node]) (count + 1))
           | Inr (Drawn events) \<Rightarrow>
               map_sum id ((@) events)
                 (draw_nodes v view_matrix count_original rest (count + 1))))"
  by pat_completeness auto
termination
proof (relation "measure (\<lambda>(v, view_matrix, count_original, node_names, count).
          2 * nat (int count_original - 1 - count) + length node_names)")
  show "wf (measure (\<lambda>(v, view_matrix, count_original, node_names, count).
          2 * nat (int count_original - 1 - count) + length node_names))"
    by simp
next
  fix v view_matrix count_original node_names count current_node rest x2 events
  assume "node_names = current_node # rest"
    and "process_node v view_matrix count_original (count + 1) current_node = Inr x2"
    and "x2 = Requeued events"
  then have "count + 1 < int count_original"
    by (auto simp: process_node_def split: option.splits sum.splits if_splits prod.splits)
  with \<open>node_names = current_node # rest\<close>
  show "((v, view_matrix, count_original, rest @ [current_node], count + 1),
          v, view_matrix, count_original, node_names, count)
        \<in> measure (\<lambda>(v, view_matrix, count_original, node_names, count).
          2 * nat (int count_original - 1 - count) + length node_names)"
    by simp
qed auto

text \<open>\<^verbatim>\<open>SceneViewer._update_meshes\<close>: the callback works on the scene.\<close>

definition update_meshes :: "viewer \<Rightarrow> viewer" where
  "update_meshes v = (case callback v of None \<Rightarrow> v | Some f \<Rightarrow> v\<lparr>scene := f (scene v)\<rparr>)"

text \<open>\<^verbatim>\<open>SceneViewer.on_draw\<close>: the callback, the camera and view matrices, the world
  axis marker, then the queue of nodes with the counter starting at \<open>-1\<close>.\<close>

definition on_draw :: "viewer \<Rightarrow> error + (viewer \<times> gl_event list)" where
  "on_draw v =
     (let v = update_meshes v;
          transform_camera = camera_transform (scene v);
          view_matrix = view_to_transform (view v);
          node_names = nodes_geometry (scene v);
          count_original = length node_names;
          first_events = [MultMatrix transform_camera, MultMatrix view_matrix]
            @ (if axis_list v \<noteq> None then [AxisDraw None] else [])
      in case draw_nodes v view_matrix count_original node_names (- 1) of
           Inl e \<Rightarrow> Inl e
         | Inr events \<Rightarrow> Inr (v, first_events @ events))"

text \<open>The nodes for which a frame issued the draw call of their vertex list, in the
  order of the calls.\<close>

fun drawn_node :: "gl_event \<Rightarrow> string option" where
  "drawn_node (NodeDraw node geometry_name transform mode tex) = Some node"
| "drawn_node (MultMatrix m) = None"
| "drawn_node (AxisDraw m) = None"
| "drawn_node (NodeDeferred node transform) = None"

definition drawn_nodes :: "gl_event list \<Rightarrow> string list" where
  "drawn_nodes events = List.map_filter drawn_node events"

text \<open>The nodes a frame put back in the queue, in the order it did.\<close>

fun deferred_node :: "gl_event \<Rightarrow> string option" where
  "deferred_node (NodeDeferred node transform) = Some node"
| "deferred_node (NodeDraw node geometry_name transform mode tex) = None"
| "deferred_node (MultMatrix m) = None"
| "deferred_node (AxisDraw m) = None"

definition deferred_nodes :: "gl_event list \<Rightarrow> string list" where
  "deferred_nodes events = List.map_filter deferred_node events"

subsection \<open>Rendering off screen\<close>

text \<open>
  \<^verbatim>\<open>render_scene\<close>: the window is constructed, then the local variable
  \<^verbatim>\<open>visible\<close> is reassigned when it is \<^verbatim>\<open>None\<close>, then two frames are drawn. The
  result keeps the window, the final value of the local variable and the events of the
  two frames; encoding the colour buffer as PNG is the graphics library's.
\<close>

record render =
  render_window :: viewer
  render_visible :: pyval
  render_frames :: "gl_event list list"

definition render_scene ::
  "deps \<Rightarrow> scene \<Rightarrow> int \<times> int \<Rightarrow> pyval \<Rightarrow> pyval \<Rightarrow> flag list option \<Rightarrow>
   (scene \<Rightarrow> scene) option \<Rightarrow> string list option \<Rightarrow> error + render" where
  "render_scene d sc resolution visible smooth flags cb fixed_names =
     (case SceneViewer_init d sc smooth flags visible (Some resolution) cb fixed_names of
        Inl e \<Rightarrow> Inl e
      | Inr window \<Rightarrow>
          (let visible = (if visible = PyNone then PyBool (platform_system d \<noteq> ''Linux'')
                          else visible)
           in case on_draw window of
                Inl e \<Rightarrow> Inl e
              | Inr (window, frame1) \<Rightarrow>
                  (case on_draw window of
                     Inl e \<Rightarrow> Inl e
                   | Inr (window, frame2) \<Rightarrow>
                       Inr \<lparr>render_window = window, render_visible = visible,
                            render_frames = [frame1, frame2]\<rparr>)))"

section \<open>Notions used by the properties\<close>

text \<open>The geometry name a node of the graph refers to, if any, and whether that
  geometry is present in the scene and transparent.\<close>

definition node_geometry :: "scene \<Rightarrow> string \<Rightarrow> string option" where
  "node_geometry sc x = (case graph sc x of None \<Rightarrow> None | Some (transform, g) \<Rightarrow> g)"

definition node_transparent :: "scene \<Rightarrow> string \<Rightarrow> bool" where
  "node_transparent sc x =
     (case node_geometry sc x of
        None \<Rightarrow> False
      | Some g \<Rightarrow>
          (case map_of (geometry sc) g of None \<Rightarrow> False | Some mesh \<Rightarrow> is_transparent mesh))"

definition geometry_nodes :: "scene \<Rightarrow> string list \<Rightarrow> string list" where
  "geometry_nodes sc xs = filter (\<lambda>x. node_geometry sc x \<noteq> None) xs"

text \<open>
  A node can be drawn by a viewer when none of the lookups of the loop body fails for
  it: the graph knows the node and, if the node has a geometry, the scene holds that
  geometry, the viewer holds its vertex list and drawing mode, the view matrix can be
  inverted if the geometry is fixed, and the axis marker exists if it is drawn at every
  frame.
\<close>

definition node_ready :: "viewer \<Rightarrow> mat \<Rightarrow> string \<Rightarrow> bool" where
  "node_ready v view_matrix x =
     (case graph (scene v) x of
        None \<Rightarrow> False
      | Some (transform, None) \<Rightarrow> True
      | Some (transform, Some g) \<Rightarrow>
          map_of (geometry (scene v)) g \<noteq> None
          \<and> vertex_list v g \<noteq> None
          \<and> vertex_list_mode v g \<noteq> None
          \<and> (is_fixed v g \<longrightarrow> \<not> isl (linalg_inv view_matrix))
          \<and> (axis (view v) = PyStr ''all'' \<longrightarrow> axis_list v \<noteq> None))"

text \<open>A draw call agrees with the graph when its node has the geometry drawn and the
  matrix pushed for it is what \<open>node_transform\<close> gives for the node's transform.\<close>

fun event_from_graph :: "viewer \<Rightarrow> mat \<Rightarrow> gl_event \<Rightarrow> bool" where
  "event_from_graph v V (NodeDraw node g used mode tex) =
     (case graph (scene v) node of
        Some (transform, Some g') \<Rightarrow> g' = g \<and> node_transform v V transform g = Inr used
      | Some (transform, None) \<Rightarrow> False
      | None \<Rightarrow> False)"
| "event_from_graph v V (MultMatrix m) = True"
| "event_from_graph v V (AxisDraw m) = True"
| "event_from_graph v V (NodeDeferred node transform) = True"



text \<open>
  The depth as the specification words it, to be compared with \<open>max_depth\<close>: for each
  of the three axes the larger absolute bound of that axis, the root of the sum of
  their squares, not below 500.
\<close>

definition spec_max_depth :: "mat \<Rightarrow> real" where
  "spec_max_depth b =
     clip_lower
       (sqrt (sum_list (map (\<lambda>j. (max \<bar>b ! 0 ! j\<bar> \<bar>b ! 1 ! j\<bar>) ^ 2) [0, 1, 2])))
       500"

section \<open>A small scene\<close>

text \<open>
  The properties below are instantiated on this scene: three nodes \<open>A\<close>, \<open>B\<close>, \<open>C\<close> in
  that order, of which \<open>B\<close> has a transparent, textured geometry. The conversion returns
  one triangle drawn with mode 4 (triangles) for every geometry.
\<close>

definition demo_deps :: deps where
  "demo_deps =
     \<lparr>convert_to_vertexlist = (\<lambda>g kw. Inr \<lparr>va_count = 3, va_mode = 4, va_indices = [0, 1, 2]\<rparr>),
      material_to_texture = (\<lambda>m. Some m),
      builtin_hash = (\<lambda>bytes. int (length bytes)),
      new_arcball = \<lparr>orientation = identity4, pivot = (0, 0), radius = 1\<rparr>,
      platform_system = ''Windows''\<rparr>"

definition opaque_mesh :: geometry where
  "opaque_mesh =
     \<lparr>md5 = Some ''d41d'', tostring = None,
      visual = Some \<lparr>crc = 17, material = None, transparency = Some False\<rparr>, faces = 12\<rparr>"

definition glass_mesh :: geometry where
  "glass_mesh =
     \<lparr>md5 = Some ''9e10'', tostring = None,
      visual = Some \<lparr>crc = 23, material = Some 1, transparency = Some True\<rparr>, faces = 12\<rparr>"

definition demo_scene :: scene where
  "demo_scene =
     \<lparr>geometry = [(''ga'', opaque_mesh), (''gb'', glass_mesh), (''gc'', opaque_mesh)],
      graph = map_of [(''A'', (identity4, Some ''ga'')),
                      (''B'', (translation_matrix 1 0 0, Some ''gb'')),
                      (''C'', (translation_matrix 0 2 0, Some ''gc''))],
      nodes_geometry = [''A'', ''B'', ''C''],
      camera_transform = identity4,
      camera_resolution = (640, 480),
      bounds = [[- 1, - 1, - 1], [1, 3, 1]],
      scale = 2,
      centroid = [0, 1, 0]\<rparr>"

text \<open>A viewer of that scene after some panning and zooming, with the geometry of
  node \<open>C\<close> fixed relative to the camera.\<close>

definition demo_viewer :: viewer where
  "demo_viewer =
     \<lparr>scene = demo_scene, callback = None,
      view = \<lparr>cull = True, axis = PyBool False, fullscreen = False, wireframe = False,
              translation = [1 / 2, 0, - 1], center = [0, 1, 0], view_scale = 2,
              ball = \<lparr>orientation = identity4, pivot = (320, 240), radius = 560\<rparr>\<rparr>,
      axis_list = None,
      vertex_list = map_of
        [(''ga'', VList \<lparr>va_count = 3, va_mode = 4, va_indices = [0, 1, 2]\<rparr>),
         (''gb'', VList \<lparr>va_count = 3, va_mode = 4, va_indices = [0, 1, 2]\<rparr>),
         (''gc'', VList \<lparr>va_count = 3, va_mode = 4, va_indices = [0, 1, 2]\<rparr>)],
      vertex_list_hash = map_of [(''ga'', ''d41d17''), (''gb'', ''9e1023''), (''gc'', ''d41d17'')],
      vertex_list_mode = map_of [(''ga'', 4), (''gb'', 4), (''gc'', 4)],
      fixed = Some [''gc''],
      textures = map_of [(''gb'', 1)],
      window_size = Some (640, 480), window_visible = PyBool True,
      window_fullscreen = False, gl_polygon_line = False, gl_cull_face = True,
      gl_depth_range = (0, 500), conversions = []\<rparr>"


text \<open>A mesh of 100000 faces, and a scene holding only it.\<close>

definition big_mesh :: geometry where
  "big_mesh = \<lparr>md5 = Some ''c4ca'', tostring = None, visual = None, faces = 100000\<rparr>"

definition big_scene :: scene where
  "big_scene = demo_scene\<lparr>geometry := [(''big'', big_mesh)],
     graph := map_of [(''N'', (identity4, Some ''big''))], nodes_geometry := [''N'']\<rparr>"

text \<open>The frame \<^verbatim>\<open>on_draw\<close> produces for that viewer.\<close>

definition demo_frame :: "gl_event list" where
  "demo_frame =
     [MultMatrix identity4, MultMatrix (translation_matrix 5 0 (- 10)),
      NodeDraw ''A'' ''ga'' identity4 4 None,
      NodeDeferred ''B'' (translation_matrix 1 0 0),
      NodeDraw ''C'' ''gc'' (translation_matrix (- 5) 2 10) 4 None,
      NodeDraw ''B'' ''gb'' (translation_matrix 1 0 0) 4 (Some 1)]"

section \<open>Properties\<close>

subsection \<open>Lists and matrices of known shape\<close>

lemma length3_cases: "length (u :: 'a list) = 3 \<Longrightarrow> \<exists>a b c. u = [a, b, c]"
  by (auto simp: eval_nat_numeral length_Suc_conv)

lemma length4_cases: "length (u :: 'a list) = 4 \<Longrightarrow> \<exists>a b c d. u = [a, b, c, d]"
  by (auto simp: eval_nat_numeral length_Suc_conv)

lemma is_4x4_cases:
  assumes "is_4x4 A"
  obtains a0 a1 a2 a3 b0 b1 b2 b3 c0 c1 c2 c3 d0 d1 d2 d3 where
    "A = [[a0, a1, a2, a3], [b0, b1, b2, b3], [c0, c1, c2, c3], [d0, d1, d2, d3]]"
proof -
  from assms obtain r0 r1 r2 r3 where A: "A = [r0, r1, r2, r3]"
    unfolding is_4x4_def using length4_cases by blast
  from assms A have "length r0 = 4" "length r1 = 4" "length r2 = 4" "length r3 = 4"
    by (simp_all add: is_4x4_def)
  then obtain a0 a1 a2 a3 b0 b1 b2 b3 c0 c1 c2 c3 d0 d1 d2 d3 where
    "r0 = [a0, a1, a2, a3]" "r1 = [b0, b1, b2, b3]" "r2 = [c0, c1, c2, c3]"
    "r3 = [d0, d1, d2, d3]"
    by (metis length4_cases)
  with A that show ?thesis by blast
qed

lemma upt4: "[0..<4] = [0, 1, 2, 3]"
  by (simp add: upt_rec)

lemma linalg_inv_translation:
  "linalg_inv (translation_matrix x y z) = Inr (translation_matrix (- x) (- y) (- z))"
  by (simp add: linalg_inv_def upt4 det_def translation_matrix_def minor_def delete_at_def upt_rec)

lemma translation_cancels:
  assumes "is_4x4 T"
  shows "np_dot (translation_matrix x y z) (np_dot (translation_matrix (- x) (- y) (- z)) T) = T"
proof -
  from assms obtain a0 a1 a2 a3 b0 b1 b2 b3 c0 c1 c2 c3 d0 d1 d2 d3 where
    "T = [[a0, a1, a2, a3], [b0, b1, b2, b3], [c0, c1, c2, c3], [d0, d1, d2, d3]]"
    by (rule is_4x4_cases)
  then show ?thesis
    by (simp add: np_dot_def translation_matrix_def inner_def column_def upt_rec)
qed

subsection \<open>The loop of the draw routine\<close>

lemma draw_nodes_Nil: "draw_nodes v V n [] c = Inr []"
  by simp

lemma draw_nodes_Cons:
  "draw_nodes v V n (x # xs) c =
     (case process_node v V n (c + 1) x of
        Inl e \<Rightarrow> Inl e
      | Inr Skipped \<Rightarrow> draw_nodes v V n xs (c + 1)
      | Inr (Requeued events) \<Rightarrow> map_sum id ((@) events) (draw_nodes v V n (xs @ [x]) (c + 1))
      | Inr (Drawn events) \<Rightarrow> map_sum id ((@) events) (draw_nodes v V n xs (c + 1)))"
  by simp

declare draw_nodes.simps [simp del]

lemma drawn_nodes_append: "drawn_nodes (a @ b) = drawn_nodes a @ drawn_nodes b"
  by (simp add: drawn_nodes_def map_filter_def)

lemma deferred_nodes_append: "deferred_nodes (a @ b) = deferred_nodes a @ deferred_nodes b"
  by (simp add: deferred_nodes_def map_filter_def)

lemma process_node_skipped:
  assumes "node_ready v V x" and "node_geometry (scene v) x = None"
  shows "process_node v V n c x = Inr Skipped"
  using assms
  by (auto simp: node_ready_def node_geometry_def process_node_def split: option.splits)

lemma process_node_requeued:
  assumes "node_ready v V x" and "node_geometry (scene v) x \<noteq> None"
    and "node_transparent (scene v) x" and "c < int n"
  shows "\<exists>events. process_node v V n c x = Inr (Requeued events)
           \<and> drawn_nodes events = [] \<and> deferred_nodes events = [x]"
  using assms
  by (auto simp: node_ready_def node_geometry_def node_transparent_def process_node_def
      node_transform_def drawn_nodes_def deferred_nodes_def map_filter_def isl_def
      split: option.splits sum.splits)

lemma process_node_drawn:
  assumes "node_ready v V x" and "node_geometry (scene v) x \<noteq> None"
    and "\<not> (node_transparent (scene v) x \<and> c < int n)"
  shows "\<exists>events. process_node v V n c x = Inr (Drawn events)
           \<and> drawn_nodes events = [x] \<and> deferred_nodes events = []"
  using assms
  by (auto simp: node_ready_def node_geometry_def node_transparent_def process_node_def
      node_transform_def drawn_nodes_def deferred_nodes_def map_filter_def isl_def
      split: option.splits sum.splits)

lemma second_pass:
  assumes "\<forall>x \<in> set q. node_ready v V x" and "int n \<le> c + 1"
  shows "\<exists>events. draw_nodes v V n q c = Inr events
           \<and> drawn_nodes events = geometry_nodes (scene v) q
           \<and> deferred_nodes events = []"
  using assms
proof (induction q arbitrary: c)
  case Nil
  show ?case
    by (simp add: draw_nodes_Nil drawn_nodes_def deferred_nodes_def geometry_nodes_def
        map_filter_def)
next
  case (Cons x q)
  from Cons.prems have ready: "node_ready v V x" and rest: "\<forall>y \<in> set q. node_ready v V y"
    by simp_all
  from Cons.prems have late: "int n \<le> (c + 1) + 1" by simp
  from Cons.IH [OF rest late] obtain tail where
    tail: "draw_nodes v V n q (c + 1) = Inr tail"
      "drawn_nodes tail = geometry_nodes (scene v) q" "deferred_nodes tail = []"
    by blast
  show ?case
  proof (cases "node_geometry (scene v) x = None")
    case True
    with ready have "process_node v V n (c + 1) x = Inr Skipped"
      by (rule process_node_skipped)
    with tail True show ?thesis
      by (simp add: draw_nodes_Cons geometry_nodes_def)
  next
    case False
    from Cons.prems have "\<not> (node_transparent (scene v) x \<and> c + 1 < int n)" by simp
    with ready False obtain events where
      "process_node v V n (c + 1) x = Inr (Drawn events)" "drawn_nodes events = [x]"
      "deferred_nodes events = []"
      using process_node_drawn by blast
    with tail False show ?thesis
      by (simp add: draw_nodes_Cons geometry_nodes_def drawn_nodes_append
          deferred_nodes_append)
  qed
qed

lemma first_pass:
  assumes "\<forall>x \<in> set (xs @ ds). node_ready v V x"
    and "c + 1 + int (length xs) = int n"
  shows "\<exists>events. draw_nodes v V n (xs @ ds) c = Inr events
           \<and> drawn_nodes events =
               filter (\<lambda>x. \<not> node_transparent (scene v) x) (geometry_nodes (scene v) xs)
               @ geometry_nodes (scene v) ds
               @ filter (node_transparent (scene v)) (geometry_nodes (scene v) xs)
           \<and> deferred_nodes events =
               filter (node_transparent (scene v)) (geometry_nodes (scene v) xs)"
  using assms
proof (induction xs arbitrary: ds c)
  case Nil
  then have "\<forall>x \<in> set ds. node_ready v V x" and "int n \<le> c + 1" by simp_all
  from second_pass [OF this] show ?case
    by (simp add: geometry_nodes_def)
next
  case (Cons x xs)
  from Cons.prems have ready: "node_ready v V x" by simp
  from Cons.prems have early: "c + 1 < int n" by simp
  from Cons.prems have count: "(c + 1) + 1 + int (length xs) = int n" by simp
  show ?case
  proof (cases "node_geometry (scene v) x = None")
    case True
    with ready have step: "process_node v V n (c + 1) x = Inr Skipped"
      by (rule process_node_skipped)
    from Cons.prems have "\<forall>y \<in> set (xs @ ds). node_ready v V y" by simp
    from Cons.IH [OF this count] step True show ?thesis
      by (simp add: draw_nodes_Cons geometry_nodes_def)
  next
    case False
    show ?thesis
    proof (cases "node_transparent (scene v) x")
      case True
      with ready False early obtain events where
        step: "process_node v V n (c + 1) x = Inr (Requeued events)"
          "drawn_nodes events = []" "deferred_nodes events = [x]"
        using process_node_requeued by blast
      from Cons.prems have "\<forall>y \<in> set (xs @ (ds @ [x])). node_ready v V y" by simp
      from Cons.IH [OF this count] obtain tail where
        "draw_nodes v V n (xs @ ds @ [x]) (c + 1) = Inr tail"
        "drawn_nodes tail =
           filter (\<lambda>x. \<not> node_transparent (scene v) x) (geometry_nodes (scene v) xs)
           @ geometry_nodes (scene v) (ds @ [x])
           @ filter (node_transparent (scene v)) (geometry_nodes (scene v) xs)"
        "deferred_nodes tail =
           filter (node_transparent (scene v)) (geometry_nodes (scene v) xs)"
        by auto
      with step True False show ?thesis
        by (simp add: draw_nodes_Cons geometry_nodes_def drawn_nodes_append
            deferred_nodes_append)
    next
      case opaque: False
      with ready False obtain events where
        step: "process_node v V n (c + 1) x = Inr (Drawn events)"
          "drawn_nodes events = [x]" "deferred_nodes events = []"
        using process_node_drawn by blast
      from Cons.prems have "\<forall>y \<in> set (xs @ ds). node_ready v V y" by simp
      from Cons.IH [OF this count] obtain tail where
        "draw_nodes v V n (xs @ ds) (c + 1) = Inr tail"
        "drawn_nodes tail =
           filter (\<lambda>x. \<not> node_transparent (scene v) x) (geometry_nodes (scene v) xs)
           @ geometry_nodes (scene v) ds
           @ filter (node_transparent (scene v)) (geometry_nodes (scene v) xs)"
        "deferred_nodes tail =
           filter (node_transparent (scene v)) (geometry_nodes (scene v) xs)"
        by auto
      with step opaque False show ?thesis
        by (simp add: draw_nodes_Cons geometry_nodes_def drawn_nodes_append
            deferred_nodes_append)
    qed
  qed
qed

lemma process_node_events:
  "process_node v V n c x = Inr (Drawn events) \<Longrightarrow> list_all (event_from_graph v V) events"
  "process_node v V n c x = Inr (Requeued events) \<Longrightarrow> list_all (event_from_graph v V) events"
  by (auto simp: process_node_def split: option.splits sum.splits if_splits)

lemma draw_nodes_events:
  "draw_nodes v V n q c = Inr events \<Longrightarrow> list_all (event_from_graph v V) events"
proof (induction v V n q c arbitrary: events rule: draw_nodes.induct)
  case (1 v V n q c)
  show ?case
  proof (cases q)
    case Nil
    with "1.prems" show ?thesis by (simp add: draw_nodes_Nil)
  next
    case (Cons x xs)
    show ?thesis
    proof (cases "process_node v V n (c + 1) x")
      case (Inl e)
      with Cons "1.prems" show ?thesis by (simp add: draw_nodes_Cons)
    next
      case (Inr outcome)
      show ?thesis
      proof (cases outcome)
        case Skipped
        with Cons Inr "1.prems" "1.IH"(1) [OF Cons Inr Skipped] show ?thesis
          by (simp add: draw_nodes_Cons)
      next
        case (Requeued evs)
        with Cons Inr "1.prems" obtain tail where
          tail: "draw_nodes v V n (xs @ [x]) (c + 1) = Inr tail" "events = evs @ tail"
          by (auto simp add: draw_nodes_Cons map_sum_def split: sum.splits)
        from "1.IH"(2) [OF Cons Inr Requeued tail(1)] process_node_events(2) [of v V n "c + 1" x evs]
          Inr Requeued tail(2)
        show ?thesis by simp
      next
        case (Drawn evs)
        with Cons Inr "1.prems" obtain tail where
          tail: "draw_nodes v V n xs (c + 1) = Inr tail" "events = evs @ tail"
          by (auto simp add: draw_nodes_Cons map_sum_def split: sum.splits)
        from "1.IH"(3) [OF Cons Inr Drawn tail(1)] process_node_events(1) [of v V n "c + 1" x evs]
          Inr Drawn tail(2)
        show ?thesis by simp
      qed
    qed
  qed
qed

subsection \<open>The frame of the small scene\<close>

lemma demo_view_matrix: "view_to_transform (view demo_viewer) = translation_matrix 5 0 (- 10)"
  by (simp add: demo_viewer_def view_to_transform_def set_translation_def get_translation_def
      rotation_block_def vadd_def vsub_def smul_def mat_vec_def inner_def identity4_def
      translation_matrix_def upt4)

lemmas demo_defs = demo_viewer_def demo_scene_def opaque_mesh_def glass_mesh_def

lemma demo_step_A:
  "process_node demo_viewer (translation_matrix 5 0 (- 10)) n c ''A'' =
     Inr (Drawn [NodeDraw ''A'' ''ga'' identity4 4 None])"
  by (simp add: process_node_def demo_defs node_transform_def is_fixed_def is_transparent_def)

lemma demo_step_B:
  "process_node demo_viewer (translation_matrix 5 0 (- 10)) n c ''B'' =
     Inr (if c < int n then Requeued [NodeDeferred ''B'' (translation_matrix 1 0 0)]
          else Drawn [NodeDraw ''B'' ''gb'' (translation_matrix 1 0 0) 4 (Some 1)])"
  by (simp add: process_node_def demo_defs node_transform_def is_fixed_def is_transparent_def)

lemma demo_step_C:
  "process_node demo_viewer (translation_matrix 5 0 (- 10)) n c ''C'' =
     Inr (Drawn [NodeDraw ''C'' ''gc'' (translation_matrix (- 5) 2 10) 4 None])"
  by (simp add: process_node_def demo_defs node_transform_def is_fixed_def is_transparent_def
      linalg_inv_translation)
    (simp add: np_dot_def translation_matrix_def inner_def column_def upt_rec)

lemma demo_on_draw: "on_draw demo_viewer = Inr (demo_viewer, demo_frame)"
proof -
  have "draw_nodes demo_viewer (translation_matrix 5 0 (- 10)) (length [''A'', ''B'', ''C''])
          [''A'', ''B'', ''C''] (- 1) =
          Inr [NodeDraw ''A'' ''ga'' identity4 4 None,
               NodeDeferred ''B'' (translation_matrix 1 0 0),
               NodeDraw ''C'' ''gc'' (translation_matrix (- 5) 2 10) 4 None,
               NodeDraw ''B'' ''gb'' (translation_matrix 1 0 0) 4 (Some 1)]"
    by (simp add: draw_nodes_Cons draw_nodes_Nil demo_step_A demo_step_B demo_step_C)
  moreover have "update_meshes demo_viewer = demo_viewer"
    by (simp add: update_meshes_def demo_viewer_def)
  moreover have "nodes_geometry (scene demo_viewer) = [''A'', ''B'', ''C'']"
    "camera_transform (scene demo_viewer) = identity4" "axis_list demo_viewer = None"
    by (simp_all add: demo_defs)
  ultimately show ?thesis
    by (simp add: on_draw_def demo_view_matrix demo_frame_def)
qed


subsection \<open>What construction and adding geometry change\<close>

lemma update_flags_maps:
  "vertex_list (update_flags v) = vertex_list v"
  "vertex_list_hash (update_flags v) = vertex_list_hash v"
  "vertex_list_mode (update_flags v) = vertex_list_mode v"
  "textures (update_flags v) = textures v"
  "conversions (update_flags v) = conversions v"
  "window_visible (update_flags v) = window_visible v"
  by (simp_all add: update_flags_def Let_def)


lemma add_geometry_keys:
  assumes "add_geometry d v name g kw = Inr v'"
  shows "dom (vertex_list v') = insert name (dom (vertex_list v))"
    and "dom (vertex_list_hash v') = insert name (dom (vertex_list_hash v))"
    and "dom (vertex_list_mode v') = insert name (dom (vertex_list_mode v))"
    and "dom (textures v') \<subseteq> insert name (dom (textures v))"
  using assms
  by (auto simp: add_geometry_def Let_def split: sum.splits option.splits)

lemma add_geometry_frame:
  assumes "add_geometry d v name g kw = Inr v'"
  shows "conversions v' = conversions v @ [(name, kw)]"
    and "window_visible v' = window_visible v"
    and "scene v' = scene v" and "callback v' = callback v"
  using assms
  by (auto simp: add_geometry_def Let_def split: sum.splits option.splits)

lemma add_all_keys:
  assumes "add_all d v gs kw = Inr v'"
  shows "dom (vertex_list v') = dom (vertex_list v) \<union> fst ` set gs
     \<and> dom (vertex_list_hash v') = dom (vertex_list_hash v) \<union> fst ` set gs
     \<and> dom (vertex_list_mode v') = dom (vertex_list_mode v) \<union> fst ` set gs
     \<and> dom (textures v') \<subseteq> dom (textures v) \<union> fst ` set gs"
  using assms
proof (induction gs arbitrary: v)
  case Nil
  then show ?case by simp
next
  case (Cons entry gs)
  obtain name mesh where entry: "entry = (name, mesh)" by (cases entry)
  with Cons.prems obtain v1 where
    first: "add_geometry d v name mesh kw = Inr v1" and rest: "add_all d v1 gs kw = Inr v'"
    by (auto split: sum.splits)
  note one = add_geometry_keys [OF first]
  note more = Cons.IH [OF rest]
  have "dom (vertex_list v') = dom (vertex_list v) \<union> fst ` set (entry # gs)"
    using one(1) more entry by simp
  moreover have "dom (vertex_list_hash v') = dom (vertex_list_hash v) \<union> fst ` set (entry # gs)"
    using one(2) more entry by simp
  moreover have "dom (vertex_list_mode v') = dom (vertex_list_mode v) \<union> fst ` set (entry # gs)"
    using one(3) more entry by simp
  moreover have "dom (textures v') \<subseteq> dom (textures v) \<union> fst ` set (entry # gs)"
  proof -
    from more have "dom (textures v') \<subseteq> dom (textures v1) \<union> fst ` set gs" by simp
    with one(4) have "dom (textures v') \<subseteq> insert name (dom (textures v)) \<union> fst ` set gs"
      by blast
    with entry show ?thesis by simp
  qed
  ultimately show ?case by simp
qed

lemma add_all_frame:
  assumes "add_all d v gs kw = Inr v'"
  shows "conversions v' = conversions v @ map (\<lambda>entry. (fst entry, kw)) gs
     \<and> window_visible v' = window_visible v
     \<and> scene v' = scene v \<and> callback v' = callback v"
  using assms
proof (induction gs arbitrary: v)
  case Nil
  then show ?case by simp
next
  case (Cons entry gs)
  obtain name mesh where entry: "entry = (name, mesh)" by (cases entry)
  with Cons.prems obtain v1 where
    first: "add_geometry d v name mesh kw = Inr v1" and rest: "add_all d v1 gs kw = Inr v'"
    by (auto split: sum.splits)
  from add_geometry_frame [OF first] Cons.IH [OF rest] entry show ?case
    by simp
qed

lemma update_flags_frame:
  "scene (update_flags v) = scene v" "callback (update_flags v) = callback v"
  "fixed (update_flags v) = fixed v" "view (update_flags v) = view v"
  by (simp_all add: update_flags_def Let_def)

lemma add_geometry_rest:
  assumes "add_geometry d v name g kw = Inr v'"
  shows "fixed v' = fixed v \<and> view v' = view v \<and> axis_list v' = axis_list v"
  using assms
  by (auto simp: add_geometry_def Let_def split: sum.splits option.splits)

lemma add_all_rest:
  assumes "add_all d v gs kw = Inr v'"
  shows "fixed v' = fixed v \<and> view v' = view v \<and> axis_list v' = axis_list v"
  using assms
proof (induction gs arbitrary: v)
  case Nil
  then show ?case by simp
next
  case (Cons entry gs)
  obtain name mesh where entry: "entry = (name, mesh)" by (cases entry)
  with Cons.prems obtain v1 where
    first: "add_geometry d v name mesh kw = Inr v1" and rest: "add_all d v1 gs kw = Inr v'"
    by (auto split: sum.splits)
  from add_geometry_rest [OF first] Cons.IH [OF rest] show ?case
    by simp
qed


lemma SceneViewer_init_state:
  assumes "SceneViewer_init d sc smooth flags visible resolution cb fixed_names = Inr v"
  shows "scene v = sc\<lparr>camera_resolution :=
                       (case resolution of None \<Rightarrow> camera_resolution sc | Some r \<Rightarrow> r)\<rparr>"
    and "callback v = cb" and "fixed v = fixed_names"
    and "view v = default_view (new_arcball d) sc"
    and "axis_list v = None"
    and "window_visible v = visible"
    and "dom (vertex_list v) = fst ` set (geometry sc)"
    and "dom (vertex_list_mode v) = fst ` set (geometry sc)"
    and "conversions v =
           map (\<lambda>entry. (fst entry, [(''smooth'', PyBool (truthy smooth))])) (geometry sc)"
proof -
  let ?blank = "\<lparr>scene = sc, callback = cb, view = default_view (new_arcball d) sc,
        axis_list = None, vertex_list = Map.empty, vertex_list_hash = Map.empty,
        vertex_list_mode = Map.empty, fixed = None, textures = Map.empty,
        window_size = None, window_visible = PyNone, window_fullscreen = False,
        gl_polygon_line = False, gl_cull_face = False, gl_depth_range = (0, 1),
        conversions = []\<rparr>"
  let ?res = "case resolution of None \<Rightarrow> camera_resolution sc | Some r \<Rightarrow> r"
  have reset: "reset_view d ?blank flags = Inr (?blank\<lparr>view := default_view (new_arcball d) sc\<rparr>)"
    by (simp add: reset_view_def reset_view_try_def)
  define v_start where "v_start =
       ?blank\<lparr>view := default_view (new_arcball d) sc,
          axis_list := None, vertex_list := Map.empty, vertex_list_hash := Map.empty,
          vertex_list_mode := Map.empty, fixed := fixed_names, textures := Map.empty,
          scene := sc\<lparr>camera_resolution := ?res\<rparr>,
          window_visible := visible, window_size := Some ?res\<rparr>"
  from assms obtain v_added where
    added: "add_all d v_start (geometry sc) [(''smooth'', PyBool (truthy smooth))] = Inr v_added"
    and v: "v = update_flags ((init_gl v_added)\<lparr>window_size := Some ?res\<rparr>)"
    unfolding SceneViewer_init_def Let_def reset v_start_def
    by (auto split: sum.splits)
  note keys = add_all_keys [OF added]
  note frame = add_all_frame [OF added]
  note rest = add_all_rest [OF added]
  have start: "scene v_start = sc\<lparr>camera_resolution := ?res\<rparr>" "callback v_start = cb"
    "fixed v_start = fixed_names" "view v_start = default_view (new_arcball d) sc"
    "axis_list v_start = None" "window_visible v_start = visible"
    "vertex_list v_start = Map.empty" "vertex_list_mode v_start = Map.empty"
    "conversions v_start = []"
    by (simp_all add: v_start_def)
  from v frame start show "scene v = sc\<lparr>camera_resolution := ?res\<rparr>"
    by (simp add: update_flags_frame init_gl_def)
  from v frame start show "callback v = cb"
    by (simp add: update_flags_frame init_gl_def)
  from v rest start show "fixed v = fixed_names"
    by (simp add: update_flags_frame init_gl_def)
  from v rest start show "view v = default_view (new_arcball d) sc"
    by (simp add: update_flags_frame init_gl_def)
  from v rest start show "axis_list v = None"
    by (simp add: update_flags_def init_gl_def default_view_def Let_def)
  from v frame start show "window_visible v = visible"
    by (simp add: update_flags_maps init_gl_def)
  from v keys start show "dom (vertex_list v) = fst ` set (geometry sc)"
    by (simp add: update_flags_maps init_gl_def)
  from v keys start show "dom (vertex_list_mode v) = fst ` set (geometry sc)"
    by (simp add: update_flags_maps init_gl_def)
  from v frame start show "conversions v =
           map (\<lambda>entry. (fst entry, [(''smooth'', PyBool (truthy smooth))])) (geometry sc)"
    by (simp add: update_flags_maps init_gl_def)
qed

lemma demo_add_geometry:
  "\<exists>v'. add_geometry demo_deps v name opaque_mesh kw = Inr v'"
  "\<exists>v'. add_geometry demo_deps v name glass_mesh kw = Inr v'"
  "\<exists>v'. add_geometry demo_deps v name big_mesh kw = Inr v'"
  by (simp_all add: add_geometry_def demo_deps_def opaque_mesh_def glass_mesh_def big_mesh_def
      geometry_hash_def Let_def)

lemma demo_add_all:
  "\<exists>v'. add_all demo_deps v (geometry demo_scene) kw = Inr v'"
proof -
  obtain v1 where s1: "add_geometry demo_deps v ''ga'' opaque_mesh kw = Inr v1"
    using demo_add_geometry(1) by blast
  obtain v2 where s2: "add_geometry demo_deps v1 ''gb'' glass_mesh kw = Inr v2"
    using demo_add_geometry(2) by blast
  obtain v3 where s3: "add_geometry demo_deps v2 ''gc'' opaque_mesh kw = Inr v3"
    using demo_add_geometry(1) by blast
  from s1 s2 s3 show ?thesis by (simp add: demo_scene_def)
qed

lemma SceneViewer_init_succeeds:
  assumes "\<And>v. \<exists>v'. add_all d v (geometry sc) [(''smooth'', PyBool (truthy smooth))] = Inr v'"
  shows "\<exists>v. SceneViewer_init d sc smooth flags visible resolution cb fixed_names = Inr v"
proof -
  let ?blank = "\<lparr>scene = sc, callback = cb, view = default_view (new_arcball d) sc,
        axis_list = None, vertex_list = Map.empty, vertex_list_hash = Map.empty,
        vertex_list_mode = Map.empty, fixed = None, textures = Map.empty,
        window_size = None, window_visible = PyNone, window_fullscreen = False,
        gl_polygon_line = False, gl_cull_face = False, gl_depth_range = (0, 1),
        conversions = []\<rparr>"
  have reset: "reset_view d ?blank flags = Inr (?blank\<lparr>view := default_view (new_arcball d) sc\<rparr>)"
    by (simp add: reset_view_def reset_view_try_def)
  show ?thesis
    unfolding SceneViewer_init_def Let_def reset
    using assms by (auto split: sum.splits) (metis sum.distinct(1) old.sum.exhaust)
qed

text \<open>A viewer just constructed without fixed geometries can draw every node the graph
  knows whose geometry, if it has one, is in the scene.\<close>

lemma constructed_viewer_ready:
  assumes "SceneViewer_init d sc smooth flags visible resolution cb None = Inr w"
    and "graph sc x = Some (transform, g_opt)"
    and "\<forall>g. g_opt = Some g \<longrightarrow> map_of (geometry sc) g \<noteq> None"
  shows "node_ready w V x"
proof (cases g_opt)
  case None
  with assms(2) show ?thesis
    by (simp add: node_ready_def SceneViewer_init_state(1) [OF assms(1)])
next
  case (Some g)
  note state = SceneViewer_init_state [OF assms(1)]
  from assms(3) Some have present: "map_of (geometry sc) g \<noteq> None" by simp
  then have "g \<in> fst ` set (geometry sc)"
    by (simp add: map_of_eq_None_iff)
  with state(7,8) have "g \<in> dom (vertex_list w)" "g \<in> dom (vertex_list_mode w)"
    by simp_all
  then have "vertex_list w g \<noteq> None" "vertex_list_mode w g \<noteq> None"
    by auto
  with assms(2) Some present show ?thesis
    by (simp add: node_ready_def state(1,3,4) is_fixed_def default_view_def)
qed

subsection \<open>Rendering the small scene\<close>

lemma on_draw_returns:
  assumes "\<forall>x \<in> set (nodes_geometry (scene (update_meshes v))).
             node_ready (update_meshes v) (view_to_transform (view v)) x"
  shows "\<exists>events. on_draw v = Inr (update_meshes v, events)"
proof -
  let ?v = "update_meshes v"
  let ?q = "nodes_geometry (scene ?v)"
  have same_view: "view ?v = view v"
    by (simp add: update_meshes_def split: option.split)
  from assms have ready: "\<forall>x \<in> set (?q @ []). node_ready ?v (view_to_transform (view ?v)) x"
    by (simp add: same_view)
  have start: "- 1 + 1 + int (length ?q) = int (length ?q)" by simp
  from first_pass [OF ready start] obtain events where
    "draw_nodes ?v (view_to_transform (view ?v)) (length ?q) ?q (- 1) = Inr events"
    by auto
  then show ?thesis
    by (simp add: on_draw_def Let_def)
qed

lemma render_scene_demo:
  "\<exists>r. render_scene demo_deps demo_scene (1080, 1080) PyNone (PyBool True) None None None = Inr r
       \<and> window_visible (render_window r) = PyNone
       \<and> render_visible r = PyBool True"
proof -
  obtain w where built:
    "SceneViewer_init demo_deps demo_scene (PyBool True) None PyNone (Some (1080, 1080)) None None
       = Inr w"
    using SceneViewer_init_succeeds [OF demo_add_all] by blast
  note state = SceneViewer_init_state [OF built]
  have same: "update_meshes w = w"
    by (simp add: update_meshes_def state(2))
  have keys: "vertex_list w g \<noteq> None" "vertex_list_mode w g \<noteq> None"
    if "g \<in> {''ga'', ''gb'', ''gc''}" for g
  proof -
    from that have "g \<in> fst ` set (geometry demo_scene)"
      by (auto simp: demo_scene_def)
    with state(7,8) have "g \<in> dom (vertex_list w)" "g \<in> dom (vertex_list_mode w)"
      by simp_all
    then show "vertex_list w g \<noteq> None" "vertex_list_mode w g \<noteq> None"
      by auto
  qed
  have "node_ready w (view_to_transform (view w)) x" if "x \<in> {''A'', ''B'', ''C''}" for x
    using that keys
    by (auto simp: node_ready_def state(1,3,4) is_fixed_def default_view_def demo_scene_def)
  then have "\<forall>x \<in> set (nodes_geometry (scene (update_meshes w))).
               node_ready (update_meshes w) (view_to_transform (view w)) x"
    by (simp add: same state(1) demo_scene_def)
  from on_draw_returns [OF this] obtain events where frame: "on_draw w = Inr (w, events)"
    by (auto simp: same)
  have platform: "platform_system demo_deps = ''Windows''"
    by (simp add: demo_deps_def)
  have "render_scene demo_deps demo_scene (1080, 1080) PyNone (PyBool True) None None None =
          Inr \<lparr>render_window = w, render_visible = PyBool True, render_frames = [events, events]\<rparr>"
    by (simp add: render_scene_def built frame platform)
  with state(6) show ?thesis by simp
qed

subsection \<open>A call of add_geometry that raises\<close>







subsection \<open>Roots and row maxima\<close>

lemma amax3: "amax [x, y, z] = max x (max y z)"
  by (simp add: amax_def max.commute max.left_commute)

lemma sqrt_1440000: "sqrt 1440000 = 1200"
  by (rule real_sqrt_unique) simp_all

lemma sqrt_1690000: "sqrt 1690000 = 1300"
  by (rule real_sqrt_unique) simp_all

lemma sqrt_10_small: "sqrt 10 < 500"
proof -
  have "sqrt 10 \<le> 4" by (rule real_le_lsqrt) simp_all
  then show ?thesis by simp
qed

subsection \<open>The claims\<close>

text \<open>
  Claim C1. For a view whose rotation widget gives a 4x4 matrix and whose centre and
  translation have three coordinates, \<^verbatim>\<open>view_to_transform\<close> returns a 4x4 matrix whose
  upper-left 3x3 block is that of the widget's matrix \<open>R\<close> and whose translation column
  is \<open>center - R center + translation * scale * 5\<close>; with the identity rotation and
  a zero centre the column is \<open>(tx * s * 5, ty * s * 5, tz * s * 5)\<close>.
\<close>

theorem view_to_transform_columns:
  assumes "is_4x4 (orientation (ball w))"
    and "length (center w) = 3"
    and "length (translation w) = 3"
  shows "is_4x4 (view_to_transform w)
     \<and> rotation_block (view_to_transform w) = rotation_block (orientation (ball w))
     \<and> get_translation (view_to_transform w) =
         vadd (vsub (center w) (mat_vec (rotation_block (orientation (ball w))) (center w)))
              (smul (smul (translation w) (view_scale w)) 5)
     \<and> (orientation (ball w) = identity4 \<and> center w = [0, 0, 0] \<longrightarrow>
         get_translation (view_to_transform w) =
           [translation w ! 0 * view_scale w * 5,
            translation w ! 1 * view_scale w * 5,
            translation w ! 2 * view_scale w * 5])"
proof -
  from assms(1) obtain a0 a1 a2 a3 b0 b1 b2 b3 c0 c1 c2 c3 d0 d1 d2 d3 where
    B: "orientation (ball w) =
          [[a0, a1, a2, a3], [b0, b1, b2, b3], [c0, c1, c2, c3], [d0, d1, d2, d3]]"
    by (rule is_4x4_cases)
  from assms(2) obtain x y z where c: "center w = [x, y, z]"
    using length3_cases by blast
  from assms(3) obtain tx ty tz where t: "translation w = [tx, ty, tz]"
    using length3_cases by blast
  show ?thesis
    by (simp add: view_to_transform_def B c t set_translation_def get_translation_def
        rotation_block_def vadd_def vsub_def smul_def mat_vec_def inner_def is_4x4_def
        identity4_def upt4 Let_def)
qed

theorem view_to_transform_columns_witness:
  "is_4x4 (orientation (ball (view demo_viewer\<lparr>center := [0, 0, 0]\<rparr>)))
   \<and> length (center (view demo_viewer\<lparr>center := [0, 0, 0]\<rparr>)) = 3
   \<and> length (translation (view demo_viewer\<lparr>center := [0, 0, 0]\<rparr>)) = 3
   \<and> orientation (ball (view demo_viewer\<lparr>center := [0, 0, 0]\<rparr>)) = identity4
   \<and> get_translation (view_to_transform (view demo_viewer\<lparr>center := [0, 0, 0]\<rparr>))
       = [5, 0, - 10]"
proof -
  let ?w = "view demo_viewer\<lparr>center := [0, 0, 0]\<rparr>"
  have shape: "is_4x4 (orientation (ball ?w))"
    by (simp add: demo_viewer_def is_4x4_def identity4_def)
  have lengths: "length (center ?w) = 3" "length (translation ?w) = 3"
    by (simp_all add: demo_viewer_def)
  have rest: "orientation (ball ?w) = identity4" "center ?w = [0, 0, 0]"
    by (simp_all add: demo_viewer_def)
  from view_to_transform_columns [OF shape lengths] rest
  have "get_translation (view_to_transform ?w) =
          [translation ?w ! 0 * view_scale ?w * 5,
           translation ?w ! 1 * view_scale ?w * 5,
           translation ?w ! 2 * view_scale ?w * 5]"
    by blast
  then have "get_translation (view_to_transform ?w) = [5, 0, - 10]"
    by (simp add: demo_viewer_def)
  with shape lengths rest show ?thesis by blast
qed



text \<open>
  Claim C6. From a view whose axis mode is off, three calls of \<^verbatim>\<open>toggle_axis\<close>
  succeed and visit the modes world, all and off in that order; the axis vertex list is
  present after the first and the second call and absent after the third.
\<close>

theorem toggle_axis_cycle:
  assumes "axis (view v) = PyBool False"
  shows "\<exists>v1 v2 v3.
           toggle_axis v = Inr v1 \<and> toggle_axis v1 = Inr v2 \<and> toggle_axis v2 = Inr v3
           \<and> axis (view v1) = PyStr ''world'' \<and> axis_list v1 \<noteq> None
           \<and> axis (view v2) = PyStr ''all'' \<and> axis_list v2 \<noteq> None
           \<and> axis (view v3) = PyBool False \<and> axis_list v3 = None"
  using assms by (simp add: toggle_axis_def update_flags_def Let_def)

theorem toggle_axis_cycle_witness:
  "axis (view demo_viewer) = PyBool False
   \<and> (\<exists>v1 v2 v3.
         toggle_axis demo_viewer = Inr v1 \<and> toggle_axis v1 = Inr v2 \<and> toggle_axis v2 = Inr v3
         \<and> axis (view v1) = PyStr ''world'' \<and> axis_list v1 = Some (AxisMarker (1 / 50))
         \<and> axis (view v2) = PyStr ''all'' \<and> axis_list v2 = Some (AxisMarker (1 / 50))
         \<and> axis (view v3) = PyBool False \<and> axis_list v3 = None)"
proof -
  have start: "axis (view demo_viewer) = PyBool False"
    by (simp add: demo_viewer_def)
  from toggle_axis_cycle [OF start] obtain v1 v2 v3 where
    steps: "toggle_axis demo_viewer = Inr v1" "toggle_axis v1 = Inr v2" "toggle_axis v2 = Inr v3"
    and modes: "axis (view v1) = PyStr ''world''" "axis (view v2) = PyStr ''all''"
      "axis (view v3) = PyBool False" "axis_list v3 = None"
    by blast
  from steps(1) have "axis_list v1 = Some (AxisMarker (1 / 50))"
    by (auto simp: toggle_axis_def update_flags_def Let_def demo_defs)
  moreover from this steps(2) modes(1) have "axis_list v2 = Some (AxisMarker (1 / 50))"
    by (auto simp: toggle_axis_def update_flags_def Let_def)
  ultimately show ?thesis using start steps modes by blast
qed

text \<open>
  Claim C7. Every draw call of a frame is issued for a node of the graph with the
  geometry the node names. If that geometry is in the \<^verbatim>\<open>fixed\<close> collection the
  matrix pushed for the call is \<open>inverse(view) . transform\<close>, otherwise it is the
  node's transform; and when the view matrix is a pure translation, its inverse is the
  opposite translation and the view matrix times the pushed matrix is the node's
  transform again: the translation is cancelled.
\<close>

theorem fixed_node_transform:
  assumes "on_draw v = Inr (v', events)"
    and "NodeDraw node g used mode tex \<in> set events"
  shows "\<exists>transform. graph (scene v') node = Some (transform, Some g)
           \<and> (if is_fixed v' g
               then \<exists>inverse_view.
                      linalg_inv (view_to_transform (view v')) = Inr inverse_view
                      \<and> used = np_dot inverse_view transform
                      \<and> (\<forall>x y z. view_to_transform (view v') = translation_matrix x y z
                             \<and> is_4x4 transform \<longrightarrow>
                           inverse_view = translation_matrix (- x) (- y) (- z)
                           \<and> np_dot (view_to_transform (view v')) used = transform)
               else used = transform)"
proof -
  let ?V = "view_to_transform (view v')"
  from assms(1) obtain loop_events where
    v': "v' = update_meshes v"
    and loop: "draw_nodes v' ?V (length (nodes_geometry (scene v'))) (nodes_geometry (scene v')) (- 1)
                 = Inr loop_events"
    and events: "events = [MultMatrix (camera_transform (scene v')), MultMatrix ?V]
                   @ (if axis_list v' \<noteq> None then [AxisDraw None] else []) @ loop_events"
    by (auto simp: on_draw_def Let_def split: sum.splits)
  from events assms(2) have "NodeDraw node g used mode tex \<in> set loop_events"
    by (auto split: if_splits)
  with draw_nodes_events [OF loop] have "event_from_graph v' ?V (NodeDraw node g used mode tex)"
    unfolding list_all_iff by blast
  then obtain transform where
    node: "graph (scene v') node = Some (transform, Some g)"
    and used: "node_transform v' ?V transform g = Inr used"
    by (auto split: option.splits)
  show ?thesis
  proof (cases "is_fixed v' g")
    case False
    with node used show ?thesis by (simp add: node_transform_def)
  next
    case True
    with used obtain inverse_view where
      inv: "linalg_inv ?V = Inr inverse_view" "used = np_dot inverse_view transform"
      by (auto simp: node_transform_def split: sum.splits)
    have "inverse_view = translation_matrix (- x) (- y) (- z)
          \<and> np_dot ?V used = transform"
      if "?V = translation_matrix x y z" "is_4x4 transform" for x y z
      using that inv linalg_inv_translation [of x y z] translation_cancels [of transform x y z]
      by simp
    with node True inv show ?thesis by auto
  qed
qed

theorem fixed_node_transform_witness:
  "on_draw demo_viewer = Inr (demo_viewer, demo_frame)
   \<and> NodeDraw ''C'' ''gc'' (translation_matrix (- 5) 2 10) 4 None \<in> set demo_frame
   \<and> is_fixed demo_viewer ''gc''
   \<and> graph (scene demo_viewer) ''C'' = Some (translation_matrix 0 2 0, Some ''gc'')
   \<and> view_to_transform (view demo_viewer) = translation_matrix 5 0 (- 10)
   \<and> is_4x4 (translation_matrix 0 2 0)
   \<and> linalg_inv (view_to_transform (view demo_viewer)) = Inr (translation_matrix (- 5) 0 10)
   \<and> np_dot (view_to_transform (view demo_viewer)) (translation_matrix (- 5) 2 10)
       = translation_matrix 0 2 0"
proof -
  have drawn: "NodeDraw ''C'' ''gc'' (translation_matrix (- 5) 2 10) 4 None \<in> set demo_frame"
    by (simp add: demo_frame_def)
  have fixed_c: "is_fixed demo_viewer ''gc''"
    by (simp add: is_fixed_def demo_viewer_def)
  have node: "graph (scene demo_viewer) ''C'' = Some (translation_matrix 0 2 0, Some ''gc'')"
    by (simp add: demo_defs)
  have shape: "is_4x4 (translation_matrix 0 2 0)"
    by (simp add: is_4x4_def translation_matrix_def)
  from fixed_node_transform [OF demo_on_draw drawn] node fixed_c
  obtain inverse_view where
    "linalg_inv (view_to_transform (view demo_viewer)) = Inr inverse_view"
    "\<forall>x y z. view_to_transform (view demo_viewer) = translation_matrix x y z
         \<and> is_4x4 (translation_matrix 0 2 0) \<longrightarrow>
       inverse_view = translation_matrix (- x) (- y) (- z)
       \<and> np_dot (view_to_transform (view demo_viewer)) (translation_matrix (- 5) 2 10)
           = translation_matrix 0 2 0"
    by auto
  with demo_view_matrix shape have
    "linalg_inv (view_to_transform (view demo_viewer)) = Inr (translation_matrix (- 5) 0 10)"
    "np_dot (view_to_transform (view demo_viewer)) (translation_matrix (- 5) 2 10)
       = translation_matrix 0 2 0"
    by auto
  with demo_on_draw drawn fixed_c node demo_view_matrix shape show ?thesis by blast
qed

text \<open>
  Claim C8. \<^verbatim>\<open>reset_view\<close> always returns. When the window has no size yet, so that
  placing the rotation widget fails, or when no flags are passed, the view it leaves
  has culling on, the axis off, fullscreen and wireframe off, a zero translation, the
  centroid of the scene as centre and the scale of the scene as scale; in the first
  case nothing but the view has changed and the flags passed were not applied.
\<close>

theorem reset_view_never_raises:
  "\<exists>v'. reset_view d v flags = Inr v'
      \<and> (window_size v = None \<or> flags = None \<longrightarrow>
           cull (view v') = True \<and> axis (view v') = PyBool False
           \<and> fullscreen (view v') = False \<and> wireframe (view v') = False
           \<and> translation (view v') = [0, 0, 0] \<and> center (view v') = centroid (scene v)
           \<and> view_scale (view v') = scale (scene v))
      \<and> (window_size v = None \<longrightarrow>
           v' = v\<lparr>view := default_view (new_arcball d) (scene v)\<rparr>)"
  by (auto simp: reset_view_def reset_view_try_def default_view_def zeros_def Let_def
      numeral_3_eq_3 split: option.splits)

theorem reset_view_never_raises_witness:
  "window_size (demo_viewer\<lparr>window_size := None\<rparr>) = None
   \<and> (\<exists>v'. reset_view demo_deps (demo_viewer\<lparr>window_size := None\<rparr>)
             (Some [Cull False, Axis (PyStr ''all'')]) = Inr v'
         \<and> cull (view v') = True \<and> axis (view v') = PyBool False
         \<and> fullscreen (view v') = False \<and> wireframe (view v') = False
         \<and> translation (view v') = [0, 0, 0] \<and> center (view v') = [0, 1, 0]
         \<and> view_scale (view v') = 2
         \<and> ball (view v') = \<lparr>orientation = identity4, pivot = (0, 0), radius = 1\<rparr>)"
proof -
  let ?v = "demo_viewer\<lparr>window_size := None\<rparr>"
  have unsized: "window_size ?v = None" by simp
  from reset_view_never_raises [of demo_deps ?v "Some [Cull False, Axis (PyStr ''all'')]"] unsized
  obtain v' where
    "reset_view demo_deps ?v (Some [Cull False, Axis (PyStr ''all'')]) = Inr v'"
    "cull (view v') = True" "axis (view v') = PyBool False"
    "fullscreen (view v') = False" "wireframe (view v') = False"
    "translation (view v') = [0, 0, 0]" "center (view v') = centroid (scene ?v)"
    "view_scale (view v') = scale (scene ?v)"
    "v' = ?v\<lparr>view := default_view (new_arcball demo_deps) (scene ?v)\<rparr>"
    by blast
  then show ?thesis
    by (auto simp: demo_defs demo_deps_def default_view_def)
qed

text \<open>
  Claim C9. A geometry that has neither an \<^verbatim>\<open>md5\<close> operation nor a
  \<^verbatim>\<open>tostring\<close> operation makes \<^verbatim>\<open>geometry_hash\<close> raise \<^verbatim>\<open>UnboundLocalError\<close>:
  no fingerprint is returned, with or without a visual.
\<close>

theorem geometry_hash_unbound:
  assumes "md5 g = None" and "tostring g = None"
  shows "geometry_hash h g = Inl UnboundLocalError"
  using assms by (simp add: geometry_hash_def split: option.split)

theorem geometry_hash_unbound_witness:
  "geometry_hash (\<lambda>b. 0)
     \<lparr>md5 = None, tostring = None, visual = None, faces = 12\<rparr> = Inl UnboundLocalError
   \<and> geometry_hash (\<lambda>b. 0)
     \<lparr>md5 = None, tostring = None,
      visual = Some \<lparr>crc = 7, material = None, transparency = None\<rparr>, faces = 12\<rparr>
     = Inl UnboundLocalError"
  using geometry_hash_unbound
    [of "\<lparr>md5 = None, tostring = None, visual = None, faces = 12\<rparr>" "\<lambda>b. 0"]
    geometry_hash_unbound
    [of "\<lparr>md5 = None, tostring = None,
          visual = Some \<lparr>crc = 7, material = None, transparency = None\<rparr>, faces = 12\<rparr>"
        "\<lambda>b. 0"]
  by simp




text \<open>
  Claim C3, evaluated on a mesh of 100000 faces. Constructed with \<^verbatim>\<open>smooth=True\<close>,
  the viewer calls the conversion for that mesh with \<^verbatim>\<open>smooth=True\<close>: the constant
  \<^verbatim>\<open>_SMOOTH_MAX_FACES\<close> is read nowhere, and \<^verbatim>\<open>add_geometry\<close> passes
  \<^verbatim>\<open>bool(smooth)\<close> on whatever the number of faces.
\<close>

theorem smooth_requested_for_large_mesh:
  "faces big_mesh = 100000
   \<and> geometry big_scene = [(''big'', big_mesh)]
   \<and> (\<exists>v. SceneViewer_init demo_deps big_scene (PyBool True) None (PyBool True) None None None
             = Inr v
          \<and> conversions v = [(''big'', [(''smooth'', PyBool True)])])"
proof -
  have "\<exists>v'. add_all demo_deps v (geometry big_scene) kw = Inr v'" for v kw
    using demo_add_geometry(3) [of v "''big''" kw]
    by (auto simp: big_scene_def demo_scene_def)
  from SceneViewer_init_succeeds [OF this] obtain v where
    built: "SceneViewer_init demo_deps big_scene (PyBool True) None (PyBool True) None None None
              = Inr v"
    by blast
  from SceneViewer_init_state(9) [OF built]
  have "conversions v = [(''big'', [(''smooth'', PyBool True)])]"
    by (simp add: big_scene_def demo_scene_def)
  with built show ?thesis
    by (auto simp: big_mesh_def big_scene_def demo_scene_def)
qed

text \<open>
  Claim C4, evaluated where \<^verbatim>\<open>platform.system()\<close> is \<^verbatim>\<open>'Windows'\<close>. Called with
  \<^verbatim>\<open>visible=None\<close>, \<^verbatim>\<open>render_scene\<close> creates its window with \<^verbatim>\<open>visible=None\<close>,
  which is false, so the window is not shown; the local variable becomes \<^verbatim>\<open>True\<close>
  only after the window exists and is not used again.
\<close>

theorem render_scene_window_not_visible:
  "platform_system demo_deps = ''Windows''
   \<and> (\<exists>r. render_scene demo_deps demo_scene (1080, 1080) PyNone (PyBool True) None None None
             = Inr r
          \<and> window_visible (render_window r) = PyNone
          \<and> truthy (window_visible (render_window r)) = False
          \<and> render_visible r = PyBool True)"
  using render_scene_demo by (auto simp: demo_deps_def)

text \<open>
  Claim C5, amended. \<^verbatim>\<open>init_gl\<close> sets the depth range to 0 and the root of the sum
  of two squares, clamped below at 500 and not above: the squares of the largest
  absolute coordinate of the minimum corner of the bounds and of the largest absolute
  coordinate of the maximum corner. The maximum is taken within each row of the bounds,
  not for each axis. A magnitude below 500 gives 500; a magnitude of 1200 gives 1200.
  The counterexample is a scene whose bounds are \<open>(0, 0, 0)\<close> and \<open>(1200, 500, 0)\<close>: the
  code's far bound is 1200, the per-axis reading of the claim gives 1300.
\<close>

theorem init_gl_depth_range:
  assumes "bounds (scene v) = [[a, b, c], [d, e, f]]"
  shows "gl_depth_range (init_gl v) =
           (0, if sqrt ((max \<bar>a\<bar> (max \<bar>b\<bar> \<bar>c\<bar>))\<^sup>2 + (max \<bar>d\<bar> (max \<bar>e\<bar> \<bar>f\<bar>))\<^sup>2) < 500
               then 500
               else sqrt ((max \<bar>a\<bar> (max \<bar>b\<bar> \<bar>c\<bar>))\<^sup>2 + (max \<bar>d\<bar> (max \<bar>e\<bar> \<bar>f\<bar>))\<^sup>2))"
  using assms by (simp add: init_gl_def max_depth_def clip_lower_def amax3)

theorem init_gl_depth_range_witness:
  "bounds (scene demo_viewer) = [[- 1, - 1, - 1], [1, 3, 1]]
   \<and> gl_depth_range (init_gl demo_viewer) = (0, 500)
   \<and> bounds (scene (demo_viewer\<lparr>scene := demo_scene\<lparr>bounds := [[0, 0, 0], [1200, 500, 0]]\<rparr>\<rparr>))
       = [[0, 0, 0], [1200, 500, 0]]
   \<and> gl_depth_range
         (init_gl (demo_viewer\<lparr>scene := demo_scene\<lparr>bounds := [[0, 0, 0], [1200, 500, 0]]\<rparr>\<rparr>))
       = (0, 1200)"
proof -
  have small: "bounds (scene demo_viewer) = [[- 1, - 1, - 1], [1, 3, 1]]"
    by (simp add: demo_viewer_def demo_scene_def)
  let ?v = "demo_viewer\<lparr>scene := demo_scene\<lparr>bounds := [[0, 0, 0], [1200, 500, 0]]\<rparr>\<rparr>"
  have large: "bounds (scene ?v) = [[0, 0, 0], [1200, 500, 0]]"
    by simp
  from init_gl_depth_range [OF small] have "gl_depth_range (init_gl demo_viewer) = (0, 500)"
    using sqrt_10_small by simp
  moreover from init_gl_depth_range [OF large] have "gl_depth_range (init_gl ?v) = (0, 1200)"
    by (simp add: sqrt_1440000)
  ultimately show ?thesis using small large by blast
qed

theorem init_gl_depth_range_counterexample:
  "snd (gl_depth_range
          (init_gl (demo_viewer\<lparr>scene := demo_scene\<lparr>bounds := [[0, 0, 0], [1200, 500, 0]]\<rparr>\<rparr>)))
     = 1200
   \<and> spec_max_depth [[0, 0, 0], [1200, 500, 0]] = 1300
   \<and> snd (gl_depth_range
          (init_gl (demo_viewer\<lparr>scene := demo_scene\<lparr>bounds := [[0, 0, 0], [1200, 500, 0]]\<rparr>\<rparr>)))
     \<noteq> spec_max_depth
          (bounds (scene (demo_viewer\<lparr>scene := demo_scene\<lparr>bounds := [[0, 0, 0], [1200, 500, 0]]\<rparr>\<rparr>)))"
proof -
  let ?v = "demo_viewer\<lparr>scene := demo_scene\<lparr>bounds := [[0, 0, 0], [1200, 500, 0]]\<rparr>\<rparr>"
  have code: "snd (gl_depth_range (init_gl ?v)) = 1200"
    by (simp add: init_gl_def max_depth_def clip_lower_def amax3 sqrt_1440000)
  have spec: "spec_max_depth [[0, 0, 0], [1200, 500, 0]] = 1300"
    by (simp add: spec_max_depth_def clip_lower_def sqrt_1690000)
  from code spec show ?thesis by simp
qed

end
